theory Spec2Isabelle
  imports Main
begin

section \<open>Python strings\<close>

text \<open>
  A Python \<open>str\<close> is a sequence of code points. It is modelled by \<open>string\<close>, every
  \<open>char\<close> standing for the code point of the same number, so the model covers the strings
  over U+0000 .. U+00FF. The classifications below are CPython's \<open>str.isdigit\<close>,
  \<open>str.isspace\<close> and \<open>str.lower\<close> on that range: besides \<open>0\<close> .. \<open>9\<close> the superscripts
  U+00B2, U+00B3 and U+00B9 are digits (Numeric_Type=Digit); the white space is
  U+0009 .. U+000D, U+001C .. U+0020, U+0085 and U+00A0; the upper-case letters are
  \<open>A\<close> .. \<open>Z\<close> and U+00C0 .. U+00DE without the multiplication sign U+00D7, each 32 below
  its lower-case letter.
\<close>

definition code_point :: "char \<Rightarrow> nat" where
  "code_point c = of_char c"

definition isdigit_char :: "char \<Rightarrow> bool" where
  "isdigit_char c =
     (let n = code_point c in (48 \<le> n \<and> n \<le> 57) \<or> n = 178 \<or> n = 179 \<or> n = 185)"

definition isspace_char :: "char \<Rightarrow> bool" where
  "isspace_char c =
     (let n = code_point c in (9 \<le> n \<and> n \<le> 13) \<or> (28 \<le> n \<and> n \<le> 32) \<or> n = 133 \<or> n = 160)"

definition lower_char :: "char \<Rightarrow> char" where
  "lower_char c =
     (let n = code_point c in
      if (65 \<le> n \<and> n \<le> 90) \<or> (192 \<le> n \<and> n \<le> 214) \<or> (216 \<le> n \<and> n \<le> 222)
      then char_of (n + 32) else c)"

text \<open>\<open>s.isdigit()\<close>: every character is a digit and there is at least one.\<close>

definition str_isdigit :: "string \<Rightarrow> bool" where
  "str_isdigit s = (s \<noteq> [] \<and> list_all isdigit_char s)"

text \<open>\<open>s.lower()\<close>.\<close>

definition str_lower :: "string \<Rightarrow> string" where
  "str_lower s = map lower_char s"

text \<open>\<open>s.strip()\<close>: the white space at both ends is dropped.\<close>

definition str_strip :: "string \<Rightarrow> string" where
  "str_strip s = rev (dropWhile isspace_char (rev (dropWhile isspace_char s)))"

text \<open>
  \<open>s.split()\<close>: the maximal runs of characters that are not white space, in order.
  \<open>split_words w cs\<close> scans \<open>cs\<close> with the word \<open>w\<close> read so far.
\<close>

fun split_words :: "string \<Rightarrow> string \<Rightarrow> string list" where
  "split_words w [] = (if w = [] then [] else [w])"
| "split_words w (c # cs) =
     (if isspace_char c
      then (if w = [] then split_words [] cs else w # split_words [] cs)
      else split_words (w @ [c]) cs)"

definition str_split :: "string \<Rightarrow> string list" where
  "str_split s = split_words [] s"

text \<open>\<open>f"'{s}'"\<close>: the string between two apostrophes.\<close>

definition quoted :: "string \<Rightarrow> string" where
  "quoted s = CHR 0x27 # s @ [CHR 0x27]"

section \<open>Exceptions\<close>

text \<open>
  The exceptions the program raises, each with its message. \<open>OtherException\<close> stands for
  any other subclass of \<open>Exception\<close>; \<open>SystemExit\<close> (raised by \<open>sys.exit()\<close>) is not a
  subclass of \<open>Exception\<close>.
\<close>

datatype exn =
    TypeError string
  | ValueError string
  | KeyError string
  | IndexError string
  | OtherException string
  | SystemExit

section \<open>Fields: \<open>Field\<close>, \<open>Name\<close>, \<open>Phone\<close>\<close>

record Field =
  field_value :: string

definition Field_init :: "string \<Rightarrow> Field" where
  "Field_init v = \<lparr>field_value = v\<rparr>"

definition Name_init :: "string \<Rightarrow> exn + Field" where
  "Name_init v =
     (if v = [] then Inl (ValueError ''Name cannot be empty.'')
      else Inr (Field_init v))"

text \<open>
  \<open>Phone.__init__\<close>: \<open>if not value.isdigit() or len(value.strip()) != 10: raise\<close>, the
  two tests in the order \<open>or\<close> evaluates them.
\<close>

definition Phone_init :: "string \<Rightarrow> exn + Field" where
  "Phone_init v =
     (if \<not> str_isdigit v then Inl (ValueError ''Phone number must be 10 digits'')
      else if length (str_strip v) \<noteq> 10 then Inl (ValueError ''Phone number must be 10 digits'')
      else Inr (Field_init v))"

section \<open>\<open>Record\<close>\<close>

record Record =
  name :: Field
  phones :: "Field list"

definition Record_init :: "string \<Rightarrow> exn + Record" where
  "Record_init nm =
     (case Name_init nm of
        Inl e \<Rightarrow> Inl e
      | Inr n \<Rightarrow> Inr \<lparr>name = n, phones = []\<rparr>)"

text \<open>
  A method mutates the record and returns normally or raises: its model returns the
  exception raised, if any, and the record as the call leaves it.
\<close>

definition add_phone :: "string \<Rightarrow> Record \<Rightarrow> exn option \<times> Record" where
  "add_phone ph r =
     (case Phone_init ph of
        Inl e \<Rightarrow> (Some e, r)
      | Inr p \<Rightarrow> (None, r\<lparr>phones := phones r @ [p]\<rparr>))"

text \<open>
  The loop of \<open>remove_phone\<close> over \<open>self.phones\<close>: at the first \<open>p\<close> with
  \<open>p.value == phone\<close> it calls \<open>self.phones.remove(p)\<close> and breaks. \<open>remove_phone_loop ph
  all ps\<close> is the loop with \<open>ps\<close> still to visit, \<open>all\<close> being the whole list.
\<close>

fun remove_phone_loop :: "string \<Rightarrow> Field list \<Rightarrow> Field list \<Rightarrow> Field list" where
  "remove_phone_loop ph all [] = all"
| "remove_phone_loop ph all (p # ps) =
     (if field_value p = ph then remove1 p all else remove_phone_loop ph all ps)"

definition remove_phone :: "string \<Rightarrow> Record \<Rightarrow> exn option \<times> Record" where
  "remove_phone ph r = (None, r\<lparr>phones := remove_phone_loop ph (phones r) (phones r)\<rparr>)"

definition edit_phone :: "string \<Rightarrow> string \<Rightarrow> Record \<Rightarrow> exn option \<times> Record" where
  "edit_phone old_phone new_phone r =
     (case remove_phone old_phone r of
        (Some e, r1) \<Rightarrow> (Some e, r1)
      | (None, r1) \<Rightarrow> add_phone new_phone r1)"

definition find_phone :: "string \<Rightarrow> Record \<Rightarrow> Field option" where
  "find_phone ph r = find (\<lambda>p. field_value p = ph) (phones r)"

section \<open>Dictionaries\<close>

text \<open>
  A \<open>dict\<close> keeps its keys in insertion order: it is an association list. \<open>k in d\<close> is
  \<open>map_of d k \<noteq> None\<close> and \<open>d[k]\<close> is the value \<open>map_of d k\<close> holds. \<open>d[k] = v\<close> is
  \<open>dict_set\<close>: a key already there keeps its place, a new key goes to the end.
  \<open>del d[k]\<close> is \<open>dict_del\<close>.
\<close>

fun dict_set :: "'k \<Rightarrow> 'v \<Rightarrow> ('k \<times> 'v) list \<Rightarrow> ('k \<times> 'v) list" where
  "dict_set k v [] = [(k, v)]"
| "dict_set k v (e # d) = (if fst e = k then (k, v) # d else e # dict_set k v d)"

fun dict_del :: "'k \<Rightarrow> ('k \<times> 'v) list \<Rightarrow> ('k \<times> 'v) list" where
  "dict_del k [] = []"
| "dict_del k (e # d) = (if fst e = k then dict_del k d else e # dict_del k d)"

section \<open>\<open>AddressBook\<close>\<close>

type_synonym AddressBook = "(string \<times> Record) list"

definition add_record :: "Record \<Rightarrow> AddressBook \<Rightarrow> AddressBook" where
  "add_record r b = dict_set (field_value (name r)) r b"

definition delete :: "string \<Rightarrow> AddressBook \<Rightarrow> exn option \<times> AddressBook" where
  "delete nm b =
     (if map_of b nm \<noteq> None then (None, dict_del nm b)
      else (Some (KeyError (''Record with name '' @ quoted nm @ '' not found'')), b))"

definition find_record :: "string \<Rightarrow> AddressBook \<Rightarrow> Record option" where
  "find_record nm b = map_of b nm"

section \<open>The command loop\<close>

text \<open>
  What the program prints, one constructor for each \<open>print\<close> statement, with the values
  the message is formatted from (the colour codes are left out):
  \<^item> \<open>Greeting\<close>: \<open>How can I help you?\<close>
  \<^item> \<open>AlreadyExists name phone\<close>: \<open>Contact "name" with phone number "phone" already exists.\<close>
  \<^item> \<open>AlreadyAdded name current\<close>: \<open>Contact "name" is already added with the number
    "current". To change the number, use the "change" command.\<close>
  \<^item> \<open>Added name phone\<close>: \<open>Contact "name" added with phone number "phone".\<close>
  \<^item> \<open>NoChanges name phone\<close>: \<open>Contact "name" already has this phone number: "phone".
    No changes were made.\<close>
  \<^item> \<open>Changed name current new\<close>: \<open>For user "name", the phone has been changed from
    "current" to "new".\<close>
  \<^item> \<open>PhoneNumberOf name phone\<close>: \<open>Phone number of "name": phone\<close>
  \<^item> \<open>ContactLine name phone\<close>: \<open>name: phone\<close>, a line of the listing of \<open>all\<close>
  \<^item> \<open>GoodBye\<close>: \<open>Good bye!\<close>
  \<^item> \<open>HelpText\<close>: the lines \<open>help_command\<close> prints
  \<^item> \<open>ErrorMsg headline e\<close>: the headline of an \<open>except\<close> clause of \<open>input_error\<close>,
    followed by the exception, \<open>e\<close> being the message it was raised with (which Python
    prints between quotes for a \<open>KeyError\<close>).
\<close>

datatype out =
    Greeting
  | AlreadyExists string string
  | AlreadyAdded string string
  | Added string string
  | NoChanges string string
  | Changed string string string
  | PhoneNumberOf string string
  | ContactLine string string
  | GoodBye
  | HelpText
  | ErrorMsg string string

type_synonym contacts = "(string \<times> string) list"

text \<open>
  The outcome of a call: what it printed, the contacts as it leaves them, and the
  exception it raised, if any.
\<close>

type_synonym outcome = "out list \<times> contacts \<times> exn option"

definition help_command :: "out list" where
  "help_command = [HelpText]"

text \<open>
  The \<open>except\<close> clauses of \<open>input_error\<close>, in their order: what the clause prints and the
  exception that leaves the wrapper. \<open>SystemExit\<close> matches no clause.
\<close>

fun except_clauses :: "exn \<Rightarrow> out list \<times> exn option" where
  "except_clauses (TypeError e) = (ErrorMsg ''Error: Incorrect command.'' e # help_command, None)"
| "except_clauses (ValueError e) = ([ErrorMsg ''Error: Incorrect arguments.'' e], None)"
| "except_clauses (KeyError e) = ([ErrorMsg ''Error: Contact not found.'' e], None)"
| "except_clauses (IndexError e) = ([ErrorMsg ''Error: Index out of range.'' e], None)"
| "except_clauses (OtherException e) = ([ErrorMsg ''An unexpected error occurred:'' e], None)"
| "except_clauses SystemExit = ([], Some SystemExit)"

text \<open>The decorator \<open>input_error\<close>, applied to the outcome of the call it wraps.\<close>

definition input_error :: "outcome \<Rightarrow> outcome" where
  "input_error r =
     (case r of
        (printed, c, None) \<Rightarrow> (printed, c, None)
      | (printed, c, Some e) \<Rightarrow> (printed @ fst (except_clauses e), c, snd (except_clauses e)))"

text \<open>
  \<open>parse_input\<close>: \<open>parts = user_input.lower().split()\<close>, then the first part, or the
  empty string, and the parts after it.
\<close>

definition parse_input :: "string \<Rightarrow> string \<times> string list" where
  "parse_input user_input =
     (let parts = str_split (str_lower user_input);
          command = (if parts \<noteq> [] then hd parts else []);
          args = (if length parts > 1 then drop 1 parts else [])
      in (command, args))"

text \<open>The handlers; \<open>f_body\<close> is the function \<open>f\<close> under its decorator.\<close>

definition hello :: "contacts \<Rightarrow> outcome" where
  "hello c = input_error ([Greeting], c, None)"

definition add_contact_body :: "contacts \<Rightarrow> string list \<Rightarrow> outcome" where
  "add_contact_body c args =
     (if length args \<noteq> 2 then ([], c, Some (ValueError ''Usage: add [name] [phone number]''))
      else let nm = args ! 0; phone = args ! 1 in
        (case map_of c nm of
           Some current_phone \<Rightarrow>
             (if current_phone = phone then ([AlreadyExists nm phone], c, None)
              else ([AlreadyAdded nm current_phone], c, None))
         | None \<Rightarrow> ([Added nm phone], dict_set nm phone c, None)))"

definition add_contact :: "contacts \<Rightarrow> string list \<Rightarrow> outcome" where
  "add_contact c args = input_error (add_contact_body c args)"

definition change_contact_body :: "contacts \<Rightarrow> string list \<Rightarrow> outcome" where
  "change_contact_body c args =
     (if length args \<noteq> 2
      then ([], c, Some (ValueError ''Usage: change [name] [new phone number]''))
      else let nm = args ! 0; new_phone = args ! 1 in
        (case map_of c nm of
           Some current_phone \<Rightarrow>
             (if new_phone = current_phone then ([NoChanges nm new_phone], c, None)
              else ([Changed nm current_phone new_phone], dict_set nm new_phone c, None))
         | None \<Rightarrow> ([], c, Some (KeyError (''Name '' @ quoted nm @ '' not found.'')))))"

definition change_contact :: "contacts \<Rightarrow> string list \<Rightarrow> outcome" where
  "change_contact c args = input_error (change_contact_body c args)"

definition show_phone_body :: "contacts \<Rightarrow> string list \<Rightarrow> outcome" where
  "show_phone_body c args =
     (if length args \<noteq> 1 then ([], c, Some (ValueError ''Usage: phone [name]''))
      else let nm = args ! 0 in
        (case map_of c nm of
           Some phone \<Rightarrow> ([PhoneNumberOf nm phone], c, None)
         | None \<Rightarrow> ([], c, Some (KeyError (''Name '' @ quoted nm @ '' not found.'')))))"

definition show_phone :: "contacts \<Rightarrow> string list \<Rightarrow> outcome" where
  "show_phone c args = input_error (show_phone_body c args)"

definition show_all_contacts_body :: "contacts \<Rightarrow> outcome" where
  "show_all_contacts_body c =
     (if c \<noteq> [] then (map (\<lambda>(nm, phone). ContactLine nm phone) c, c, None)
      else ([], c, Some (IndexError ''No contacts available.'')))"

definition show_all_contacts :: "contacts \<Rightarrow> outcome" where
  "show_all_contacts c = input_error (show_all_contacts_body c)"

definition handle_exit :: "contacts \<Rightarrow> outcome" where
  "handle_exit c = ([GoodBye], c, Some SystemExit)"

text \<open>
  The table \<open>command_handlers\<close> of \<open>main\<close>; its handlers close over the one \<open>contacts\<close>
  dictionary, here their first argument.
\<close>

definition command_handlers :: "(string \<times> (contacts \<Rightarrow> string list \<Rightarrow> outcome)) list" where
  "command_handlers =
     [(''hello'', \<lambda>c _. hello c),
      (''add'', \<lambda>c args. add_contact c args),
      (''change'', \<lambda>c args. change_contact c args),
      (''phone'', \<lambda>c args. show_phone c args),
      (''all'', \<lambda>c _. show_all_contacts c),
      (''close'', \<lambda>c _. handle_exit c),
      (''exit'', \<lambda>c _. handle_exit c),
      (''quit'', \<lambda>c _. handle_exit c),
      (''help'', \<lambda>c _. (help_command, c, None))]"

definition handle_command_body :: "contacts \<Rightarrow> string \<Rightarrow> string list option \<Rightarrow> outcome" where
  "handle_command_body c command args =
     (case map_of command_handlers command of
        Some handler \<Rightarrow> handler c (case args of None \<Rightarrow> [] | Some a \<Rightarrow> a)
      | None \<Rightarrow> ([], c, Some (TypeError (''Unknown command '' @ quoted command))))"

definition handle_command :: "contacts \<Rightarrow> string \<Rightarrow> string list option \<Rightarrow> outcome" where
  "handle_command c command args = input_error (handle_command_body c command args)"

text \<open>One turn of the loop of \<open>main\<close> on the line \<open>input\<close> returned.\<close>

definition main_step :: "contacts \<Rightarrow> string \<Rightarrow> outcome" where
  "main_step c line =
     (let user_input = str_strip line;
          (command, args) = parse_input user_input
      in handle_command c command (Some args))"

text \<open>
  The loop of \<open>main\<close> over the lines typed, until an exception leaves \<open>handle_command\<close>
  or the input ends: at the end of the input \<open>input\<close> raises \<open>EOFError\<close>, a subclass
  of \<open>Exception\<close>, outside any wrapper, and it leaves the loop.
\<close>

fun main_loop :: "contacts \<Rightarrow> string list \<Rightarrow> outcome" where
  "main_loop c [] = ([], c, Some (OtherException ''EOF when reading a line''))"
| "main_loop c (line # rest) =
     (case main_step c line of
        (printed, c1, Some e) \<Rightarrow> (printed, c1, Some e)
      | (printed, c1, None) \<Rightarrow>
          (case main_loop c1 rest of (printed2, c2, x) \<Rightarrow> (printed @ printed2, c2, x)))"

section \<open>Message classes\<close>

text \<open>
  The class of an error message is the headline its \<open>except\<close> clause prints;
  \<open>error_headlines\<close> collects the headlines among what a call printed.
\<close>

primrec headline_of :: "out \<Rightarrow> string list" where
  "headline_of Greeting = []"
| "headline_of (AlreadyExists n p) = []"
| "headline_of (AlreadyAdded n p) = []"
| "headline_of (Added n p) = []"
| "headline_of (NoChanges n p) = []"
| "headline_of (Changed n p q) = []"
| "headline_of (PhoneNumberOf n p) = []"
| "headline_of (ContactLine n p) = []"
| "headline_of GoodBye = []"
| "headline_of HelpText = []"
| "headline_of (ErrorMsg h e) = [h]"

definition error_headlines :: "outcome \<Rightarrow> string list" where
  "error_headlines r = concat (map headline_of (fst r))"

section \<open>The specification's phone format\<close>

text \<open>
  The format as the specification words it, for comparison with \<open>Phone_init\<close>: exactly
  10 characters, all decimal digits \<open>0\<close> .. \<open>9\<close>.
\<close>

definition spec_phone_ok :: "string \<Rightarrow> bool" where
  "spec_phone_ok s = (length s = 10 \<and> list_all (\<lambda>c. 48 \<le> code_point c \<and> code_point c \<le> 57) s)"

section \<open>The specification's letter case\<close>



section \<open>Dictionary lemmas\<close>

lemma map_of_dict_set: "map_of (dict_set k v d) = (map_of d)(k \<mapsto> v)"
  by (induction d) (auto simp: fun_eq_iff)

lemma dict_set_new: "map_of d k = None \<Longrightarrow> dict_set k v d = d @ [(k, v)]"
  by (induction d) (auto split: if_splits)

lemma map_of_dict_del: "map_of (dict_del k d) = (map_of d)(k := None)"
  by (induction d) (auto simp: fun_eq_iff)

section \<open>Characters and strings\<close>

lemma code_point_less: "code_point c < 256"
  unfolding code_point_def by (cases c) simp

lemma isdigit_not_isspace: "isdigit_char c \<Longrightarrow> \<not> isspace_char c"
  by (auto simp: isdigit_char_def isspace_char_def Let_def)

lemma dropWhile_none: "list_all (\<lambda>c. \<not> P c) s \<Longrightarrow> dropWhile P s = s"
  by (cases s) auto

lemma str_strip_no_space: "list_all (\<lambda>c. \<not> isspace_char c) s \<Longrightarrow> str_strip s = s"
  unfolding str_strip_def by (simp add: dropWhile_none list_all_iff)

lemma str_strip_isdigit: "str_isdigit s \<Longrightarrow> str_strip s = s"
  by (rule str_strip_no_space) (auto simp: str_isdigit_def list_all_iff isdigit_not_isspace)

section \<open>\<open>Phone\<close>\<close>

text \<open>
  What \<open>Phone_init\<close> accepts: the strings of 10 characters that \<open>isdigit_char\<close> holds
  of. The call to \<open>strip\<close> changes nothing, a string of digits having no white space.
\<close>

lemma Phone_init_iff:
  "Phone_init s =
     (if list_all isdigit_char s \<and> length s = 10 then Inr (Field_init s)
      else Inl (ValueError ''Phone number must be 10 digits''))"
proof (cases "str_isdigit s")
  case True
  then show ?thesis
    by (auto simp: Phone_init_def str_strip_isdigit) (simp_all add: str_isdigit_def)
next
  case False
  then show ?thesis
    by (auto simp: Phone_init_def str_isdigit_def)
qed

lemma decimal_isdigit: "48 \<le> code_point c \<Longrightarrow> code_point c \<le> 57 \<Longrightarrow> isdigit_char c"
  by (auto simp: isdigit_char_def Let_def)

text \<open>Every string in the specification's format is accepted.\<close>

lemma spec_phone_ok_accepted: "spec_phone_ok s \<Longrightarrow> Phone_init s = Inr (Field_init s)"
  unfolding Phone_init_iff spec_phone_ok_def
  by (auto simp: list_all_iff decimal_isdigit)

text \<open>
  C1. Phone construction succeeds on the 10 decimal digit strings and is to fail on every
  other string. On the string of ten superscript twos (U+00B2), which is not in the
  specification's format, \<open>Phone_init\<close> returns a phone instead of raising \<open>ValueError\<close>:
  \<open>isdigit\<close> holds of the superscript digits too.
\<close>

theorem Phone_init_superscript_twos:
  "Phone_init (replicate 10 (CHR 0xB2)) = Inr (Field_init (replicate 10 (CHR 0xB2))) \<and>
   spec_phone_ok (replicate 10 (CHR 0xB2)) = False"
  by (simp add: Phone_init_iff spec_phone_ok_def isdigit_char_def code_point_def list_all_iff)

section \<open>\<open>Record.edit_phone\<close>\<close>

lemma remove_phone_loop_absent:
  "list_all (\<lambda>p. field_value p \<noteq> ph) ps \<Longrightarrow> remove_phone_loop ph all ps = all"
  by (induction ps) auto

text \<open>
  C7. \<open>edit_phone old new\<close> leaves the record, and raises, as \<open>remove_phone old\<close> followed
  by \<open>add_phone new\<close> does. When no phone of the record has the value \<open>old\<close> it is
  \<open>add_phone new\<close> alone: for a phone \<open>new\<close> that \<open>Phone\<close> accepts, the phone list is the
  original one with \<open>new\<close> appended.
\<close>

theorem edit_phone_remove_then_add:
  "edit_phone old_phone new_phone r = add_phone new_phone (snd (remove_phone old_phone r)) \<and>
   (list_all (\<lambda>p. field_value p \<noteq> old_phone) (phones r) \<longrightarrow>
      edit_phone old_phone new_phone r = add_phone new_phone r \<and>
      (Phone_init new_phone = Inr p \<longrightarrow>
         edit_phone old_phone new_phone r = (None, r\<lparr>phones := phones r @ [p]\<rparr>)))"
  by (simp add: edit_phone_def remove_phone_def remove_phone_loop_absent add_phone_def)

theorem edit_phone_remove_then_add_witness:
  "list_all (\<lambda>p. field_value p \<noteq> ''0000000000'')
     (phones \<lparr>name = Field_init ''bob'', phones = [Field_init ''1234567890'']\<rparr>) \<and>
   Phone_init ''9999999999'' = Inr (Field_init ''9999999999'') \<and>
   edit_phone ''0000000000'' ''9999999999''
     \<lparr>name = Field_init ''bob'', phones = [Field_init ''1234567890'']\<rparr> =
   (None, \<lparr>name = Field_init ''bob'',
           phones = [Field_init ''1234567890'', Field_init ''9999999999'']\<rparr>)"
proof -
  have absent: "list_all (\<lambda>p. field_value p \<noteq> ''0000000000'')
     (phones \<lparr>name = Field_init ''bob'', phones = [Field_init ''1234567890'']\<rparr>)"
    by (simp add: Field_init_def)
  have valid: "Phone_init ''9999999999'' = Inr (Field_init ''9999999999'')"
    by (simp add: Phone_init_iff isdigit_char_def code_point_def)
  have appended: "edit_phone ''0000000000'' ''9999999999''
     \<lparr>name = Field_init ''bob'', phones = [Field_init ''1234567890'']\<rparr> =
   (None, \<lparr>name = Field_init ''bob'',
           phones = [Field_init ''1234567890'', Field_init ''9999999999'']\<rparr>)"
    using edit_phone_remove_then_add [where old_phone = "''0000000000''"
        and new_phone = "''9999999999''" and p = "Field_init ''9999999999''"
        and r = "\<lparr>name = Field_init ''bob'', phones = [Field_init ''1234567890'']\<rparr>",
        THEN conjunct2, THEN mp, OF absent, THEN conjunct2, THEN mp, OF valid]
    by simp
  from absent valid appended show ?thesis by (intro conjI)
qed

section \<open>\<open>AddressBook.delete\<close>\<close>

text \<open>
  C8. \<open>delete name\<close> on a book that has the key \<open>name\<close> returns normally and leaves a book
  without that key, every other key holding what it held; on a book without the key it
  raises \<open>KeyError\<close> and the book is as it was.
\<close>

theorem delete_removes_or_raises:
  "(map_of b nm \<noteq> None \<longrightarrow>
      fst (delete nm b) = None \<and> map_of (snd (delete nm b)) = (map_of b)(nm := None)) \<and>
   (map_of b nm = None \<longrightarrow>
      delete nm b = (Some (KeyError (''Record with name '' @ quoted nm @ '' not found'')), b))"
  by (simp add: delete_def map_of_dict_del)

theorem delete_removes_or_raises_witness:
  "map_of [(''bob'', \<lparr>name = Field_init ''bob'', phones = []\<rparr>)] ''bob'' \<noteq> None \<and>
   fst (delete ''bob'' [(''bob'', \<lparr>name = Field_init ''bob'', phones = []\<rparr>)]) = None \<and>
   map_of (snd (delete ''bob'' [(''bob'', \<lparr>name = Field_init ''bob'', phones = []\<rparr>)])) ''bob''
     = None \<and>
   map_of [(''bob'', \<lparr>name = Field_init ''bob'', phones = []\<rparr>)] ''eve'' = None \<and>
   delete ''eve'' [(''bob'', \<lparr>name = Field_init ''bob'', phones = []\<rparr>)] =
     (Some (KeyError (''Record with name '' @ quoted ''eve'' @ '' not found'')),
      [(''bob'', \<lparr>name = Field_init ''bob'', phones = []\<rparr>)])"
  using delete_removes_or_raises
      [where nm = "''bob''" and b = "[(''bob'', \<lparr>name = Field_init ''bob'', phones = []\<rparr>)]"]
    delete_removes_or_raises
      [where nm = "''eve''" and b = "[(''bob'', \<lparr>name = Field_init ''bob'', phones = []\<rparr>)]"]
  by simp

section \<open>The wrapper \<open>input_error\<close> and the table of handlers\<close>

lemma handlers_add: "map_of command_handlers ''add'' = Some (\<lambda>c args. add_contact c args)"
  by (simp add: command_handlers_def)

lemma handlers_change:
  "map_of command_handlers ''change'' = Some (\<lambda>c args. change_contact c args)"
  by (simp add: command_handlers_def)

lemma handlers_phone: "map_of command_handlers ''phone'' = Some (\<lambda>c args. show_phone c args)"
  by (simp add: command_handlers_def)

lemma handlers_all: "map_of command_handlers ''all'' = Some (\<lambda>c _. show_all_contacts c)"
  by (simp add: command_handlers_def)

lemma input_error_None: "input_error (printed, c, None) = (printed, c, None)"
  by (simp add: input_error_def)

lemma input_error_Some:
  "input_error (printed, c, Some e) =
     (printed @ fst (except_clauses e), c, snd (except_clauses e))"
  by (simp add: input_error_def)

section \<open>The commands \<open>add\<close>, \<open>change\<close> and \<open>all\<close>\<close>

text \<open>
  C2. The command \<open>add\<close> with the two arguments \<open>name\<close> and \<open>phone\<close>: a name that is not a
  key of the contacts is inserted with the phone; for a name stored with the same phone
  the already-exists message is printed and the contacts are as before; for a name stored
  with another phone the message naming the stored phone and the \<open>change\<close> command is
  printed and the contacts are as before.
\<close>

theorem add_contact_cases:
  "(map_of c nm = None \<longrightarrow>
      handle_command c ''add'' (Some [nm, phone]) =
        ([Added nm phone], c @ [(nm, phone)], None)) \<and>
   (map_of c nm = Some phone \<longrightarrow>
      handle_command c ''add'' (Some [nm, phone]) = ([AlreadyExists nm phone], c, None)) \<and>
   (map_of c nm = Some current \<and> current \<noteq> phone \<longrightarrow>
      handle_command c ''add'' (Some [nm, phone]) = ([AlreadyAdded nm current], c, None))"
  by (simp add: handle_command_def handle_command_body_def handlers_add add_contact_def
      add_contact_body_def input_error_None dict_set_new)

theorem add_contact_cases_witness:
  "map_of [] ''alice'' = (None :: string option) \<and>
   handle_command [] ''add'' (Some [''alice'', ''1234567890'']) =
     ([Added ''alice'' ''1234567890''], [(''alice'', ''1234567890'')], None) \<and>
   map_of [(''alice'', ''1234567890'')] ''alice'' = Some ''1234567890'' \<and>
   handle_command [(''alice'', ''1234567890'')] ''add'' (Some [''alice'', ''1234567890'']) =
     ([AlreadyExists ''alice'' ''1234567890''], [(''alice'', ''1234567890'')], None) \<and>
   ''1234567890'' \<noteq> ''9999999999'' \<and>
   handle_command [(''alice'', ''1234567890'')] ''add'' (Some [''alice'', ''9999999999'']) =
     ([AlreadyAdded ''alice'' ''1234567890''], [(''alice'', ''1234567890'')], None)"
  using add_contact_cases [where c = "[]" and nm = "''alice''" and phone = "''1234567890''"]
    add_contact_cases [where c = "[(''alice'', ''1234567890'')]" and nm = "''alice''"
      and phone = "''1234567890''"]
    add_contact_cases [where c = "[(''alice'', ''1234567890'')]" and nm = "''alice''"
      and phone = "''9999999999''" and current = "''1234567890''"]
  by simp

text \<open>
  C3. The command \<open>change\<close> with the two arguments \<open>name\<close> and \<open>new_phone\<close>: for a name
  that is not a key of the contacts the handler raises \<open>KeyError\<close>, which is reported as
  contact not found, the contacts as before; for the phone already stored the no-changes
  message is printed and the contacts are as before; otherwise the phone stored for the
  name becomes \<open>new_phone\<close>, every other name keeping its phone.
\<close>

theorem change_contact_cases:
  "(map_of c nm = None \<longrightarrow>
      change_contact_body c [nm, phone] =
        ([], c, Some (KeyError (''Name '' @ quoted nm @ '' not found.''))) \<and>
      handle_command c ''change'' (Some [nm, phone]) =
        ([ErrorMsg ''Error: Contact not found.'' (''Name '' @ quoted nm @ '' not found.'')],
         c, None)) \<and>
   (map_of c nm = Some phone \<longrightarrow>
      handle_command c ''change'' (Some [nm, phone]) = ([NoChanges nm phone], c, None)) \<and>
   (map_of c nm = Some current \<and> current \<noteq> phone \<longrightarrow>
      handle_command c ''change'' (Some [nm, phone]) =
        ([Changed nm current phone], dict_set nm phone c, None) \<and>
      map_of (dict_set nm phone c) = (map_of c)(nm \<mapsto> phone))"
  by (auto simp add: handle_command_def handle_command_body_def handlers_change
      change_contact_def change_contact_body_def input_error_None input_error_Some
      map_of_dict_set)

theorem change_contact_cases_witness:
  "map_of [] ''bob'' = (None :: string option) \<and>
   handle_command [] ''change'' (Some [''bob'', ''1234567890'']) =
     ([ErrorMsg ''Error: Contact not found.'' (''Name '' @ quoted ''bob'' @ '' not found.'')],
      [], None) \<and>
   map_of [(''bob'', ''1234567890'')] ''bob'' = Some ''1234567890'' \<and>
   handle_command [(''bob'', ''1234567890'')] ''change'' (Some [''bob'', ''1234567890'']) =
     ([NoChanges ''bob'' ''1234567890''], [(''bob'', ''1234567890'')], None) \<and>
   ''1234567890'' \<noteq> ''9999999999'' \<and>
   handle_command [(''bob'', ''1234567890'')] ''change'' (Some [''bob'', ''9999999999'']) =
     ([Changed ''bob'' ''1234567890'' ''9999999999''], [(''bob'', ''9999999999'')], None)"
  using change_contact_cases [where c = "[]" and nm = "''bob''" and phone = "''1234567890''"]
    change_contact_cases [where c = "[(''bob'', ''1234567890'')]" and nm = "''bob''"
      and phone = "''1234567890''"]
    change_contact_cases [where c = "[(''bob'', ''1234567890'')]" and nm = "''bob''"
      and phone = "''9999999999''" and current = "''1234567890''"]
  by simp

text \<open>
  C5. On empty contacts the handler of \<open>all\<close> raises \<open>IndexError\<close> (no contacts available),
  which is reported as such; after one \<open>add\<close> that succeeds on empty contacts, \<open>all\<close>
  prints the line of that name and phone and no other.
\<close>

theorem all_empty_then_one:
  "show_all_contacts_body [] = ([], [], Some (IndexError ''No contacts available.'')) \<and>
   handle_command [] ''all'' (Some args) =
     ([ErrorMsg ''Error: Index out of range.'' ''No contacts available.''], [], None) \<and>
   handle_command [] ''add'' (Some [nm, phone]) = ([Added nm phone], [(nm, phone)], None) \<and>
   handle_command [(nm, phone)] ''all'' (Some args) =
     ([ContactLine nm phone], [(nm, phone)], None)"
  by (simp add: handle_command_def handle_command_body_def handlers_add handlers_all
      add_contact_def add_contact_body_def show_all_contacts_def show_all_contacts_body_def
      input_error_None input_error_Some)

theorem all_empty_then_one_witness:
  "handle_command [] ''all'' (Some []) =
     ([ErrorMsg ''Error: Index out of range.'' ''No contacts available.''], [], None) \<and>
   handle_command [] ''add'' (Some [''alice'', ''1234567890'']) =
     ([Added ''alice'' ''1234567890''], [(''alice'', ''1234567890'')], None) \<and>
   handle_command [(''alice'', ''1234567890'')] ''all'' (Some []) =
     ([ContactLine ''alice'' ''1234567890''], [(''alice'', ''1234567890'')], None)"
  using all_empty_then_one [where args = "[]" and nm = "''alice''" and phone = "''1234567890''"]
  by simp

text \<open>
  C9. The commands \<open>add\<close> and \<open>change\<close> validate no phone: for a name that is not a key
  of the contacts \<open>add\<close> stores any second token as the phone and prints the message of
  success, and \<open>change\<close> replaces a stored phone by any other token; \<open>Phone_init\<close> is not
  called on the way.
\<close>

theorem add_change_store_any_token:
  "(map_of c nm = None \<longrightarrow>
      handle_command c ''add'' (Some [nm, token]) =
        ([Added nm token], c @ [(nm, token)], None)) \<and>
   (map_of c nm = Some current \<and> current \<noteq> token \<longrightarrow>
      handle_command c ''change'' (Some [nm, token]) =
        ([Changed nm current token], dict_set nm token c, None))"
  by (auto simp add: handle_command_def handle_command_body_def handlers_add handlers_change
      add_contact_def add_contact_body_def change_contact_def change_contact_body_def
      input_error_None dict_set_new)

theorem add_change_store_any_token_witness:
  "Phone_init ''abc'' = Inl (ValueError ''Phone number must be 10 digits'') \<and>
   Phone_init ''123'' = Inl (ValueError ''Phone number must be 10 digits'') \<and>
   map_of [] ''bob'' = (None :: string option) \<and>
   handle_command [] ''add'' (Some [''bob'', ''abc'']) =
     ([Added ''bob'' ''abc''], [(''bob'', ''abc'')], None) \<and>
   map_of [(''bob'', ''abc'')] ''bob'' = Some ''abc'' \<and> ''abc'' \<noteq> ''123'' \<and>
   handle_command [(''bob'', ''abc'')] ''change'' (Some [''bob'', ''123'']) =
     ([Changed ''bob'' ''abc'' ''123''], [(''bob'', ''123'')], None)"
  using add_change_store_any_token [where c = "[]" and nm = "''bob''" and token = "''abc''"]
    add_change_store_any_token [where c = "[(''bob'', ''abc'')]" and nm = "''bob''"
      and token = "''123''" and current = "''abc''"]
  by (simp add: Phone_init_iff isdigit_char_def code_point_def)

section \<open>Dispatch: unknown commands and escaping exceptions\<close>

lemma input_error_exn:
  "snd (snd (input_error r)) = (if snd (snd r) = Some SystemExit then Some SystemExit else None)"
proof (cases r rule: prod_cases3)
  case (fields printed c x)
  show ?thesis
  proof (cases x)
    case None
    with fields show ?thesis by (simp add: input_error_def)
  next
    case (Some e)
    with fields show ?thesis by (cases e) (simp_all add: input_error_def)
  qed
qed

lemma input_error_contacts: "fst (snd (input_error r)) = fst (snd r)"
  by (cases r rule: prod_cases3) (simp add: input_error_def split: option.splits)

lemma handle_command_unknown:
  "map_of command_handlers command = None \<Longrightarrow>
   handle_command c command args =
     ([ErrorMsg ''Error: Incorrect command.'' (''Unknown command '' @ quoted command), HelpText], c, None)"
  by (simp add: handle_command_def handle_command_body_def input_error_Some help_command_def)

lemma main_step_eq:
  "main_step c line =
     handle_command c (fst (parse_input (str_strip line)))
       (Some (snd (parse_input (str_strip line))))"
  by (simp add: main_step_def Let_def split_beta)

lemma hello_exn: "snd (snd (hello c)) = None"
  by (simp add: hello_def input_error_exn)

lemma add_contact_exn: "snd (snd (add_contact c args)) = None"
  by (simp add: add_contact_def input_error_exn add_contact_body_def Let_def
      split: option.splits)

lemma change_contact_exn: "snd (snd (change_contact c args)) = None"
  by (simp add: change_contact_def input_error_exn change_contact_body_def Let_def
      split: option.splits)

lemma show_phone_exn: "snd (snd (show_phone c args)) = None"
  by (simp add: show_phone_def input_error_exn show_phone_body_def Let_def
      split: option.splits)

lemma show_all_contacts_exn: "snd (snd (show_all_contacts c)) = None"
  by (simp add: show_all_contacts_def input_error_exn show_all_contacts_body_def)

lemma handle_command_exn:
  "snd (snd (handle_command c command args)) =
     (if command = ''close'' \<or> command = ''exit'' \<or> command = ''quit''
      then Some SystemExit else None)"
  unfolding handle_command_def input_error_exn
  by (simp add: handle_command_body_def command_handlers_def hello_exn add_contact_exn
      change_contact_exn show_phone_exn show_all_contacts_exn handle_exit_def)

lemma wrong_arity_add:
  "length args \<noteq> 2 \<Longrightarrow>
   handle_command c ''add'' (Some args) =
     ([ErrorMsg ''Error: Incorrect arguments.'' ''Usage: add [name] [phone number]''], c, None)"
  by (simp add: handle_command_def handle_command_body_def handlers_add add_contact_def
      add_contact_body_def input_error_None input_error_Some)

lemma wrong_arity_change:
  "length args \<noteq> 2 \<Longrightarrow>
   handle_command c ''change'' (Some args) =
     ([ErrorMsg ''Error: Incorrect arguments.'' ''Usage: change [name] [new phone number]''],
      c, None)"
  by (simp add: handle_command_def handle_command_body_def handlers_change change_contact_def
      change_contact_body_def input_error_None input_error_Some)

lemma wrong_arity_phone:
  "length args \<noteq> 1 \<Longrightarrow>
   handle_command c ''phone'' (Some args) =
     ([ErrorMsg ''Error: Incorrect arguments.'' ''Usage: phone [name]''], c, None)"
  by (simp add: handle_command_def handle_command_body_def handlers_phone show_phone_def
      show_phone_body_def input_error_None input_error_Some)

text \<open>
  C4, as the code has it. A line whose first token is no key of \<open>command_handlers\<close> makes
  \<open>handle_command\<close> raise \<open>TypeError\<close>; its wrapper reports it under the headline
  \<open>Error: Incorrect command.\<close> and prints the help text, the contacts as before. A wrong
  number of arguments to \<open>add\<close>, \<open>change\<close> or \<open>phone\<close> is a \<open>ValueError\<close>, reported under
  the other headline \<open>Error: Incorrect arguments.\<close> with the usage string and without the
  help text. No exception but \<open>SystemExit\<close> leaves the wrapper \<open>input_error\<close>, whatever the
  wrapped call raised, and one turn of the loop ends with \<open>SystemExit\<close> exactly for the
  commands \<open>close\<close>, \<open>exit\<close> and \<open>quit\<close>.
\<close>

theorem unknown_command_reported:
  "(map_of command_handlers (fst (parse_input (str_strip line))) = None \<longrightarrow>
      main_step c line =
        ([ErrorMsg ''Error: Incorrect command.''
            (''Unknown command '' @ quoted (fst (parse_input (str_strip line)))), HelpText],
         c, None)) \<and>
   (length args \<noteq> 2 \<longrightarrow>
      handle_command c ''add'' (Some args) =
        ([ErrorMsg ''Error: Incorrect arguments.'' ''Usage: add [name] [phone number]''],
         c, None) \<and>
      handle_command c ''change'' (Some args) =
        ([ErrorMsg ''Error: Incorrect arguments.'' ''Usage: change [name] [new phone number]''],
         c, None)) \<and>
   (length args \<noteq> 1 \<longrightarrow>
      handle_command c ''phone'' (Some args) =
        ([ErrorMsg ''Error: Incorrect arguments.'' ''Usage: phone [name]''], c, None)) \<and>
   snd (snd (input_error r)) =
     (if snd (snd r) = Some SystemExit then Some SystemExit else None) \<and>
   snd (snd (main_step c line)) =
     (if fst (parse_input (str_strip line)) = ''close'' \<or>
         fst (parse_input (str_strip line)) = ''exit'' \<or>
         fst (parse_input (str_strip line)) = ''quit''
      then Some SystemExit else None)"
  by (simp add: main_step_eq handle_command_unknown handle_command_exn input_error_exn
      wrong_arity_add wrong_arity_change wrong_arity_phone)

theorem unknown_command_reported_witness:
  "map_of command_handlers (fst (parse_input (str_strip ''foo''))) = None \<and>
   main_step [] ''foo'' =
     ([ErrorMsg ''Error: Incorrect command.'' (''Unknown command '' @ quoted ''foo''), HelpText],
      [], None) \<and>
   length [''x''] \<noteq> 2 \<and>
   handle_command [] ''add'' (Some [''x'']) =
     ([ErrorMsg ''Error: Incorrect arguments.'' ''Usage: add [name] [phone number]''],
      [], None) \<and>
   length ([] :: string list) \<noteq> 1 \<and>
   handle_command [] ''phone'' (Some []) =
     ([ErrorMsg ''Error: Incorrect arguments.'' ''Usage: phone [name]''], [], None) \<and>
   snd (snd (input_error ([], [], Some (OtherException ''boom'')))) = None \<and>
   snd (snd (main_step [] ''foo'')) = None"
proof -
  have tok: "fst (parse_input (str_strip ''foo'')) = ''foo''"
    by code_simp
  have unknown: "map_of command_handlers (fst (parse_input (str_strip ''foo''))) = None"
    unfolding tok by (simp add: command_handlers_def)
  show ?thesis
    using unknown
      unknown_command_reported [where line = "''foo''" and c = "[]" and args = "[''x'']"
        and r = "([], [], Some (OtherException ''boom''))"]
      unknown_command_reported [where line = "''foo''" and c = "[]" and args = "[]"
        and r = "([], [], Some (OtherException ''boom''))"]
    by (simp add: tok)
qed

text \<open>
  C4, as the specification words it, fails: the unknown command \<open>foo\<close> and the wrong-arity
  call \<open>add x\<close> are reported under different headlines.
\<close>

theorem unknown_command_class_counterexample:
  "error_headlines (main_step [] ''foo'') = [''Error: Incorrect command.''] \<and>
   error_headlines (main_step [] ''add x'') = [''Error: Incorrect arguments.''] \<and>
   error_headlines (main_step [] ''foo'') \<noteq> error_headlines (main_step [] ''add x'')"
  by code_simp

section \<open>Parsing a line\<close>

lemma space_lower: "isspace_char (lower_char c) = isspace_char c"
  using code_point_less [of c]
  by (auto simp: isspace_char_def lower_char_def code_point_def Let_def)

lemma split_words_spaces: "list_all isspace_char s \<Longrightarrow> split_words [] s = []"
  by (induction s) auto

lemma str_split_spaces: "list_all isspace_char s \<Longrightarrow> str_split (str_lower s) = []"
  unfolding str_split_def str_lower_def
  by (rule split_words_spaces) (simp add: list_all_iff space_lower)

lemma parse_input_spaces: "list_all isspace_char s \<Longrightarrow> parse_input s = ([], [])"
  by (simp add: parse_input_def str_split_spaces)

lemma dropWhile_all: "list_all P s \<Longrightarrow> dropWhile P s = []"
  by (induction s) auto

lemma str_strip_spaces: "list_all isspace_char s \<Longrightarrow> str_strip s = []"
  by (simp add: str_strip_def dropWhile_all)

lemma handlers_empty: "map_of command_handlers [] = None"
  by (simp add: command_handlers_def)

text \<open>
  C10. A line that is empty or all white space parses to the empty command with no
  arguments; the empty string is no key of \<open>command_handlers\<close>, so the turn reports an
  unknown command (the error message, then the help text) and the contacts are as before.
\<close>

theorem blank_line_unknown_command:
  "list_all isspace_char line \<longrightarrow>
     parse_input line = ([], []) \<and>
     map_of command_handlers [] = None \<and>
     main_step c line =
       ([ErrorMsg ''Error: Incorrect command.'' (''Unknown command '' @ quoted []), HelpText],
        c, None)"
  by (simp add: parse_input_spaces handlers_empty main_step_eq str_strip_spaces
      handle_command_unknown)

theorem blank_line_unknown_command_witness:
  "list_all isspace_char [CHR '' '', CHR 0x09, CHR '' ''] \<and>
   parse_input [CHR '' '', CHR 0x09, CHR '' ''] = ([], []) \<and>
   main_step [(''bob'', ''123'')] [CHR '' '', CHR 0x09, CHR '' ''] =
     ([ErrorMsg ''Error: Incorrect command.'' (''Unknown command '' @ quoted []), HelpText],
      [(''bob'', ''123'')], None) \<and>
   list_all isspace_char [] \<and>
   main_step [(''bob'', ''123'')] [] =
     ([ErrorMsg ''Error: Incorrect command.'' (''Unknown command '' @ quoted []), HelpText],
      [(''bob'', ''123'')], None)"
proof -
  have blank: "list_all isspace_char [CHR '' '', CHR 0x09, CHR '' '']"
    by (simp add: isspace_char_def code_point_def)
  have empty: "list_all isspace_char []"
    by simp
  show ?thesis
    using blank empty
      blank_line_unknown_command [where line = "[CHR '' '', CHR 0x09, CHR '' '']"
        and c = "[(''bob'', ''123'')]"]
      blank_line_unknown_command [where line = "[]" and c = "[(''bob'', ''123'')]"]
    by simp
qed

section \<open>Names in any letter case\<close>



























text \<open>
  Two sessions: the loop stops at \<open>exit\<close>, the line after it is not read; without
  \<open>exit\<close> it ends with the \<open>EOFError\<close> of \<open>input\<close>.
\<close>

lemma main_loop_session:
  "main_loop [] [''add Alice 1234567890'', ''PHONE alice'', ''exit'', ''hello''] =
     ([Added ''alice'' ''1234567890'', PhoneNumberOf ''alice'' ''1234567890'', GoodBye],
      [(''alice'', ''1234567890'')], Some SystemExit) \<and>
   main_loop [] [''hello''] =
     ([Greeting], [], Some (OtherException ''EOF when reading a line''))"
  by code_simp

end
